theory Spec2Isabelle
  imports Complex_Main
begin

section \<open>The calendar that the component computes with\<close>

text \<open>
  The heat map (\<^verbatim>\<open>src/heatmap.tsx\<close>) draws one calendar year as a grid of week columns.
  All of its date arithmetic goes through the \<^verbatim>\<open>dayjs\<close> library, which wraps a JavaScript
  \<^verbatim>\<open>Date\<close>. The library is a dependency of the package and not part of it, so this
  section gives the operations the component calls a meaning: the time values and the
  day-number arithmetic of ECMA-262 (section "Time Values and Time Range": \<^verbatim>\<open>Day\<close>,
  \<^verbatim>\<open>DayFromYear\<close>, \<^verbatim>\<open>YearFromTime\<close>, \<^verbatim>\<open>MonthFromTime\<close>, \<^verbatim>\<open>DateFromTime\<close>, \<^verbatim>\<open>WeekDay\<close>,
  \<^verbatim>\<open>MakeDay\<close>, \<^verbatim>\<open>MakeDate\<close>, \<^verbatim>\<open>LocalTime\<close>, \<^verbatim>\<open>UTC\<close>), the methods of \<^verbatim>\<open>Date\<close> that are
  defined with them, and on top the methods of \<^verbatim>\<open>dayjs\<close> as the library implements them
  with \<^verbatim>\<open>Date\<close>.

  JavaScript numbers are integers here (every number of the component is a small integer
  or a time value), and the divisions are divisions of real numbers followed by
  \<^verbatim>\<open>Math.floor\<close>, \<^verbatim>\<open>Math.ceil\<close> or \<^verbatim>\<open>Math.round\<close>. The calendar is the proleptic Gregorian
  one. The range of time values (\<^verbatim>\<open>TimeClip\<close>) and invalid dates are not modelled.
\<close>

type_synonym Dayjs = int

subsection \<open>Day numbers of ECMA-262\<close>

text \<open>The functions of this subsection take a day number, \<^verbatim>\<open>Day(t)\<close>, where ECMA-262
  takes the time value \<open>t\<close>.\<close>

definition DayFromYear :: "int \<Rightarrow> int" where
  "DayFromYear y =
     365 * (y - 1970) + (y - 1969) div 4 - (y - 1901) div 100 + (y - 1601) div 400"

definition DaysInYear :: "int \<Rightarrow> int" where
  "DaysInYear y =
     (if y mod 4 \<noteq> 0 then 365
      else if y mod 100 \<noteq> 0 then 366
      else if y mod 400 \<noteq> 0 then 365
      else 366)"

text \<open>
  \<^verbatim>\<open>YearFromTime\<close> is "the largest year whose first day is not after the day". It is
  computed from an estimate with the mean length of a year (146097 days in 400 years)
  that is off by at most one; \<open>YearFromTime_bounds\<close> and \<open>YearFromTime_unique\<close> below show
  that the result is that largest year.
\<close>

definition YearFromTime :: "int \<Rightarrow> int" where
  "YearFromTime d =
     (let y0 = 1970 + (400 * d) div 146097
      in if d < DayFromYear y0 then y0 - 1
         else if DayFromYear (y0 + 1) \<le> d then y0 + 1
         else y0)"

definition InLeapYear_of_year :: "int \<Rightarrow> int" where
  "InLeapYear_of_year y = (if DaysInYear y = 365 then 0 else 1)"

definition DayWithinYear :: "int \<Rightarrow> int" where
  "DayWithinYear d = d - DayFromYear (YearFromTime d)"

definition InLeapYear :: "int \<Rightarrow> int" where
  "InLeapYear d = InLeapYear_of_year (YearFromTime d)"

text \<open>The month (0 to 11) and the day of the month (1 to 31) of a day within its year;
  \<open>L\<close> is 1 in a leap year and 0 otherwise.\<close>

definition MonthFromDay :: "int \<Rightarrow> int \<Rightarrow> int" where
  "MonthFromDay dwy L =
     (if dwy < 31 then 0
      else if dwy < 59 + L then 1
      else if dwy < 90 + L then 2
      else if dwy < 120 + L then 3
      else if dwy < 151 + L then 4
      else if dwy < 181 + L then 5
      else if dwy < 212 + L then 6
      else if dwy < 243 + L then 7
      else if dwy < 273 + L then 8
      else if dwy < 304 + L then 9
      else if dwy < 334 + L then 10
      else 11)"

definition DateFromDay :: "int \<Rightarrow> int \<Rightarrow> int" where
  "DateFromDay dwy L =
     (let m = MonthFromDay dwy L
      in if m = 0 then dwy + 1
         else if m = 1 then dwy - 30
         else if m = 2 then dwy - 58 - L
         else if m = 3 then dwy - 89 - L
         else if m = 4 then dwy - 119 - L
         else if m = 5 then dwy - 150 - L
         else if m = 6 then dwy - 180 - L
         else if m = 7 then dwy - 211 - L
         else if m = 8 then dwy - 242 - L
         else if m = 9 then dwy - 272 - L
         else if m = 10 then dwy - 303 - L
         else dwy - 333 - L)"

definition MonthFromTime :: "int \<Rightarrow> int" where
  "MonthFromTime d = MonthFromDay (DayWithinYear d) (InLeapYear d)"

definition DateFromTime :: "int \<Rightarrow> int" where
  "DateFromTime d = DateFromDay (DayWithinYear d) (InLeapYear d)"

text \<open>Day 0, 1 January 1970, was a Thursday; 0 is Sunday.\<close>

definition WeekDay :: "int \<Rightarrow> int" where
  "WeekDay d = (d + 4) mod 7"

text \<open>The day within the year on which month \<open>m\<close> starts.\<close>

definition monthStart :: "int \<Rightarrow> int \<Rightarrow> int" where
  "monthStart m L =
     (if m = 0 then 0
      else if m = 1 then 31
      else if m = 2 then 59 + L
      else if m = 3 then 90 + L
      else if m = 4 then 120 + L
      else if m = 5 then 151 + L
      else if m = 6 then 181 + L
      else if m = 7 then 212 + L
      else if m = 8 then 243 + L
      else if m = 9 then 273 + L
      else if m = 10 then 304 + L
      else 334 + L)"

text \<open>
  \<^verbatim>\<open>MakeDay(year, month, date)\<close>: months outside 0 to 11 carry into the year, and the day
  of the month is added as a plain offset, so that day 0 is the last day of the month
  before and day 32 runs into the next month.
\<close>

definition MakeDay :: "int \<Rightarrow> int \<Rightarrow> int \<Rightarrow> int" where
  "MakeDay year month date =
     (let ym = year + month div 12;
          mn = month mod 12
      in DayFromYear ym + monthStart mn (InLeapYear_of_year ym) + date - 1)"

text \<open>The civil length of a month: the table the lemmas compare \<^verbatim>\<open>daysInMonth()\<close> with.\<close>

definition monthLength :: "int \<Rightarrow> int \<Rightarrow> int" where
  "monthLength y m =
     (if m = 1 then 28 + InLeapYear_of_year y
      else if m = 3 \<or> m = 5 \<or> m = 8 \<or> m = 10 then 30
      else 31)"

subsection \<open>Time values, the host and the methods of \<^verbatim>\<open>Date\<close>\<close>

text \<open>
  A time value is a number of milliseconds since 1 January 1970 UTC. What ECMA-262
  leaves to the implementation is gathered in the host: the offset of local time at a
  UTC time value (\<^verbatim>\<open>LocalTZA(t, true)\<close>), the offset by which a local time value is read
  (\<^verbatim>\<open>LocalTZA(t, false)\<close>), and the time value that \<^verbatim>\<open>new Date(string)\<close> gives for the
  string of 1 January of a year when the string is not in a format of the standard.
\<close>

definition msPerDay :: int where
  "msPerDay = 86400000"

definition msPerMinute :: int where
  "msPerMinute = 60000"

definition Day :: "int \<Rightarrow> int" where
  "Day t = t div msPerDay"

definition TimeWithinDay :: "int \<Rightarrow> int" where
  "TimeWithinDay t = t mod msPerDay"

definition MakeDate :: "int \<Rightarrow> int \<Rightarrow> int" where
  "MakeDate day time = day * msPerDay + time"

record Host =
  LocalTZA_utc :: "int \<Rightarrow> int"
  LocalTZA_local :: "int \<Rightarrow> int"
  Date_parse_legacy :: "int \<Rightarrow> Dayjs"

definition LocalTime :: "Host \<Rightarrow> int \<Rightarrow> int" where
  "LocalTime host t = t + LocalTZA_utc host t"

definition UTC :: "Host \<Rightarrow> int \<Rightarrow> int" where
  "UTC host t = t - LocalTZA_local host t"

text \<open>The local day number of a time value: the fields of a \<^verbatim>\<open>Date\<close> are read from it.\<close>

definition localDay :: "Host \<Rightarrow> Dayjs \<Rightarrow> int" where
  "localDay host t = Day (LocalTime host t)"

definition Date_getFullYear :: "Host \<Rightarrow> Dayjs \<Rightarrow> int" where
  "Date_getFullYear host t = YearFromTime (localDay host t)"

definition Date_getMonth :: "Host \<Rightarrow> Dayjs \<Rightarrow> int" where
  "Date_getMonth host t = MonthFromTime (localDay host t)"

definition Date_getDate :: "Host \<Rightarrow> Dayjs \<Rightarrow> int" where
  "Date_getDate host t = DateFromTime (localDay host t)"

definition Date_getDay :: "Host \<Rightarrow> Dayjs \<Rightarrow> int" where
  "Date_getDay host t = WeekDay (localDay host t)"

text \<open>
  \<^verbatim>\<open>MakeFullYear\<close>: the constructor \<^verbatim>\<open>new Date(year, month, date)\<close> reads a year from 0 to
  99 as a year of the twentieth century. The constructor builds local midnight of the day.
\<close>

definition MakeFullYear :: "int \<Rightarrow> int" where
  "MakeFullYear year = (if 0 \<le> year \<and> year \<le> 99 then 1900 + year else year)"

definition Date_new :: "Host \<Rightarrow> int \<Rightarrow> int \<Rightarrow> int \<Rightarrow> Dayjs" where
  "Date_new host year month date =
     UTC host (MakeDate (MakeDay (MakeFullYear year) month date) 0)"

text \<open>\<^verbatim>\<open>setDate\<close>, \<^verbatim>\<open>setMonth\<close> and \<^verbatim>\<open>setFullYear\<close> rebuild the local time from its fields
  with one of them replaced, keep the time of day, and go back to UTC. \<^verbatim>\<open>setFullYear\<close>
  takes the year as it is. \<^verbatim>\<open>setHours(23, 59, 59, 999)\<close> moves to the last millisecond of
  the local day.\<close>

definition Date_setDate :: "Host \<Rightarrow> Dayjs \<Rightarrow> int \<Rightarrow> Dayjs" where
  "Date_setDate host t dt =
     (let tl = LocalTime host t
      in UTC host (MakeDate (MakeDay (YearFromTime (Day tl)) (MonthFromTime (Day tl)) dt)
                     (TimeWithinDay tl)))"


definition Date_setFullYear :: "Host \<Rightarrow> Dayjs \<Rightarrow> int \<Rightarrow> Dayjs" where
  "Date_setFullYear host t y =
     (let tl = LocalTime host t
      in UTC host (MakeDate (MakeDay y (MonthFromTime (Day tl)) (DateFromTime (Day tl)))
                     (TimeWithinDay tl)))"

definition Date_setHours_endOfDay :: "Host \<Rightarrow> Dayjs \<Rightarrow> Dayjs" where
  "Date_setHours_endOfDay host t =
     (let tl = LocalTime host t
      in UTC host (MakeDate (Day tl) (msPerDay - 1)))"

text \<open>\<^verbatim>\<open>getTimezoneOffset()\<close>, in minutes, and \<^verbatim>\<open>Math.round\<close>.\<close>

definition Date_getTimezoneOffset :: "Host \<Rightarrow> Dayjs \<Rightarrow> real" where
  "Date_getTimezoneOffset host t = real_of_int (t - LocalTime host t) / real_of_int msPerMinute"

definition Math_round :: "real \<Rightarrow> int" where
  "Math_round x = \<lfloor>x + 1 / 2\<rfloor>"

subsection \<open>The methods of \<^verbatim>\<open>dayjs\<close> that the component calls\<close>

text \<open>
  A \<^verbatim>\<open>Dayjs\<close> object wraps a \<^verbatim>\<open>Date\<close> and is represented by its time value. An invalid
  date (\<^verbatim>\<open>NaN\<close>) is not represented: the specification leaves a year that gives one to
  the caller. \<^verbatim>\<open>endOf("month")\<close> is \<^verbatim>\<open>new Date($y, $M + 1, 0)\<close> moved to the end of its day, and
  \<^verbatim>\<open>daysInMonth()\<close> is the day of the month of that.
\<close>

definition dayjs_endOf_month :: "Host \<Rightarrow> Dayjs \<Rightarrow> Dayjs" where
  "dayjs_endOf_month host t =
     Date_setHours_endOfDay host
       (Date_new host (Date_getFullYear host t) (Date_getMonth host t + 1) 0)"

definition dayjs_daysInMonth :: "Host \<Rightarrow> Dayjs \<Rightarrow> int" where
  "dayjs_daysInMonth host t = Date_getDate host (dayjs_endOf_month host t)"

text \<open>
  The setters \<^verbatim>\<open>.year(y)\<close> and \<^verbatim>\<open>.month(m)\<close>: the library moves to the first day of the
  month, sets the field, and then restores the day of the month, clamped to
  \<^verbatim>\<open>daysInMonth()\<close> of the month reached.
\<close>

definition dayjs_set_year :: "Host \<Rightarrow> Dayjs \<Rightarrow> int \<Rightarrow> Dayjs" where
  "dayjs_set_year host t y =
     (let date = Date_setFullYear host (Date_setDate host t 1) y
      in Date_setDate host date (min (Date_getDate host t) (dayjs_daysInMonth host date)))"


text \<open>\<^verbatim>\<open>startOf("year")\<close> is \<^verbatim>\<open>new Date($y, 0, 1)\<close>.\<close>

definition dayjs_startOf_year :: "Host \<Rightarrow> Dayjs \<Rightarrow> Dayjs" where
  "dayjs_startOf_year host t = Date_new host (Date_getFullYear host t) 0 1"

text \<open>
  \<^verbatim>\<open>utcOffset()\<close> is \<^verbatim>\<open>-Math.round(getTimezoneOffset() / 15) * 15\<close>, in minutes.
  \<^verbatim>\<open>a.diff(b, "day")\<close> takes the difference of the time values, corrects it by the
  difference of the two rounded offsets, divides by the milliseconds of a day and drops
  the fraction (towards zero).
\<close>

definition dayjs_utcOffset :: "Host \<Rightarrow> Dayjs \<Rightarrow> int" where
  "dayjs_utcOffset host t = - Math_round (Date_getTimezoneOffset host t / 15) * 15"

definition dayjs_diff_day :: "Host \<Rightarrow> Dayjs \<Rightarrow> Dayjs \<Rightarrow> int" where
  "dayjs_diff_day host a b =
     (let zoneDelta = (dayjs_utcOffset host b - dayjs_utcOffset host a) * msPerMinute;
          diff = a - b;
          result = real_of_int (diff - zoneDelta) / real_of_int msPerDay
      in if result < 0 then \<lceil>result\<rceil> else \<lfloor>result\<rfloor>)"

text \<open>\<^verbatim>\<open>d.add(n, "day")\<close> sets the day of the month to its value plus \<open>n\<close>.\<close>

definition dayjs_add_day :: "Host \<Rightarrow> Dayjs \<Rightarrow> int \<Rightarrow> Dayjs" where
  "dayjs_add_day host t n = Date_setDate host t (Date_getDate host t + n)"

text \<open>\<^verbatim>\<open>day()\<close> is the weekday with 0 for Sunday; \<^verbatim>\<open>isoWeekday()\<close> of the plugin
  \<^verbatim>\<open>isoWeek\<close> is \<^verbatim>\<open>this.day() || 7\<close>.\<close>

definition dayjs_day :: "Host \<Rightarrow> Dayjs \<Rightarrow> int" where
  "dayjs_day host t = Date_getDay host t"

definition dayjs_isoWeekday :: "Host \<Rightarrow> Dayjs \<Rightarrow> int" where
  "dayjs_isoWeekday host t = (if dayjs_day host t = 0 then 7 else dayjs_day host t)"

text \<open>
  \<^verbatim>\<open>dayjs(`${year}-01-01`)\<close>. The library parses the string itself when it starts with
  four digits, which is so for the years from 1000 to 9999, and builds
  \<^verbatim>\<open>new Date(year, 0, 1)\<close>; any other string it hands to \<^verbatim>\<open>new Date(string)\<close>, whose result
  for such a string is the host's.
\<close>

definition dayjs_parse_january_first :: "Host \<Rightarrow> int \<Rightarrow> Dayjs" where
  "dayjs_parse_january_first host year =
     (if 1000 \<le> year \<and> year \<le> 9999 then Date_new host year 0 1
      else Date_parse_legacy host year)"

section \<open>Hosts\<close>

text \<open>A host whose time zone has the same offset \<open>c\<close> (in milliseconds) at every time.\<close>

definition fixed_offset :: "Host \<Rightarrow> int \<Rightarrow> bool" where
  "fixed_offset host c \<longleftrightarrow>
     LocalTZA_utc host = (\<lambda>t. c) \<and> LocalTZA_local host = (\<lambda>t. c)"

text \<open>
  The host on which the theorems below are evaluated: its time zone is UTC, and its
  \<^verbatim>\<open>new Date(string)\<close> reads a year of one or two digits as the common engines do, below
  50 as a year from 2000 and otherwise as a year from 1900 (\<^verbatim>\<open>"50-01-01"\<close> is 1 January
  1950, \<^verbatim>\<open>"0-01-01"\<close> is 1 January 2000). No theorem evaluates its parser on another year.
\<close>

definition legacy_two_digit_year :: "int \<Rightarrow> int" where
  "legacy_two_digit_year year = (if year < 50 then 2000 + year else 1900 + year)"

definition host_utc :: Host where
  "host_utc =
     \<lparr>LocalTZA_utc = (\<lambda>t. 0),
      LocalTZA_local = (\<lambda>t. 0),
      Date_parse_legacy =
        (\<lambda>year. MakeDate (MakeDay (if 0 \<le> year \<and> year \<le> 99 then legacy_two_digit_year year
                                    else year) 0 1) 0)\<rparr>"



text \<open>A rendering all of whose calls of \<^verbatim>\<open>dayjs()\<close> happen at the epoch.\<close>

definition clock_epoch :: "nat \<Rightarrow> Dayjs" where
  "clock_epoch k = 0"

section \<open>The helper functions of the component\<close>

text \<open>
  \<^verbatim>\<open>dayjs()\<close> without an argument is the current instant. A function that calls it takes
  the time value of each call as an argument (\<open>now\<close>, \<open>now'\<close>), in the order of the calls.
\<close>

definition getDaysInYear :: "Host \<Rightarrow> Dayjs \<Rightarrow> Dayjs \<Rightarrow> int \<Rightarrow> int" where
  "getDaysInYear host now now' year =
     (let startOfYear = dayjs_startOf_year host (dayjs_set_year host now year);
          startOfNextYear = dayjs_startOf_year host (dayjs_set_year host now' (year + 1))
      in dayjs_diff_day host startOfNextYear startOfYear)"


definition getDateFromDayOfYear :: "Host \<Rightarrow> int \<Rightarrow> int \<Rightarrow> Dayjs" where
  "getDateFromDayOfYear host year dayOfYear =
     dayjs_add_day host (dayjs_parse_january_first host year) (dayOfYear - 1)"

definition getStartColumnForDay :: "int \<Rightarrow> int \<Rightarrow> int" where
  "getStartColumnForDay dayOfYear firstDayOffset =
     (let dayIndex = dayOfYear - 1;
          gridIndex = dayIndex + firstDayOffset;
          colIndex = \<lfloor>real_of_int gridIndex / 7\<rfloor>
      in colIndex + 1)"


section \<open>The component \<^verbatim>\<open>Heatmap\<close>\<close>


definition WEEKDAYS_MON_START :: "string list" where
  "WEEKDAYS_MON_START = [''Mon'', ''Tue'', ''Wed'', ''Thu'', ''Fri'', ''Sat'', ''Sun'']"

definition WEEKDAYS_SUN_START :: "string list" where
  "WEEKDAYS_SUN_START = [''Sun'', ''Mon'', ''Tue'', ''Wed'', ''Thu'', ''Fri'', ''Sat'']"

text \<open>
  The union types of string literals (\<^verbatim>\<open>"monday" | "sunday"\<close>, \<^verbatim>\<open>"left" | "center" | "right"\<close>)
  are strings when the component runs, and the component compares them as strings.
\<close>

type_synonym WeekStartDay = string

record Config =
  getWeekday :: "Dayjs \<Rightarrow> int"
  labels :: "string list"

definition config :: "Host \<Rightarrow> WeekStartDay \<Rightarrow> Config" where
  "config host weekStartDay =
     (if weekStartDay = ''sunday''
      then \<lparr>getWeekday = (\<lambda>date. dayjs_day host date), labels = WEEKDAYS_SUN_START\<rparr>
      else \<lparr>getWeekday = (\<lambda>date. dayjs_isoWeekday host date - 1), labels = WEEKDAYS_MON_START\<rparr>)"

text \<open>
  The values the body of the component computes from \<open>year\<close> and \<open>weekStartDay\<close>.
  \<open>clock k\<close> is the time value of the \<open>k\<close>-th call of \<^verbatim>\<open>dayjs()\<close> of one rendering: two
  calls in \<open>getDaysInYear\<close>, then one in each of the twelve calls of \<open>getDaysInMonth\<close>.
\<close>

definition Heatmap_daysInYear :: "Host \<Rightarrow> (nat \<Rightarrow> Dayjs) \<Rightarrow> int \<Rightarrow> int" where
  "Heatmap_daysInYear host clock year = getDaysInYear host (clock 0) (clock 1) year"

definition Heatmap_firstDayOfYear :: "Host \<Rightarrow> int \<Rightarrow> Dayjs" where
  "Heatmap_firstDayOfYear host year = dayjs_parse_january_first host year"

definition Heatmap_firstDayOffset :: "Host \<Rightarrow> int \<Rightarrow> WeekStartDay \<Rightarrow> int" where
  "Heatmap_firstDayOffset host year weekStartDay =
     getWeekday (config host weekStartDay) (Heatmap_firstDayOfYear host year)"

definition Heatmap_totalCols :: "Host \<Rightarrow> (nat \<Rightarrow> Dayjs) \<Rightarrow> int \<Rightarrow> WeekStartDay \<Rightarrow> int" where
  "Heatmap_totalCols host clock year weekStartDay =
     \<lceil>real_of_int (Heatmap_daysInYear host clock year + Heatmap_firstDayOffset host year weekStartDay) / 7\<rceil>"







record DayCellProps =
  date :: "Dayjs option"
  dayOfYear :: "int option"
  colIndex :: nat
  rowIndex :: nat
  isEmpty :: bool

text \<open>The descriptor of the cell in column \<open>colIdx\<close> and row \<open>rowIdx\<close>, and the grid:
  \<^verbatim>\<open>totalCols\<close> columns of seven cells, built column by column.\<close>

definition Heatmap_dayCell :: "Host \<Rightarrow> (nat \<Rightarrow> Dayjs) \<Rightarrow> int \<Rightarrow> WeekStartDay \<Rightarrow> nat \<Rightarrow> nat \<Rightarrow> DayCellProps" where
  "Heatmap_dayCell host clock year weekStartDay colIdx rowIdx =
     (let dayOfYear = int colIdx * 7 + int rowIdx + 1 - Heatmap_firstDayOffset host year weekStartDay;
          isEmpty = (dayOfYear \<le> 0 \<or> dayOfYear > Heatmap_daysInYear host clock year);
          date = (if isEmpty then None else Some (getDateFromDayOfYear host year dayOfYear))
      in \<lparr>date = date,
          dayOfYear = (if isEmpty then None else Some dayOfYear),
          colIndex = colIdx,
          rowIndex = rowIdx,
          isEmpty = isEmpty\<rparr>)"

definition Heatmap_dayCells :: "Host \<Rightarrow> (nat \<Rightarrow> Dayjs) \<Rightarrow> int \<Rightarrow> WeekStartDay \<Rightarrow> DayCellProps list list" where
  "Heatmap_dayCells host clock year weekStartDay =
     map (\<lambda>colIdx. map (\<lambda>rowIdx. Heatmap_dayCell host clock year weekStartDay colIdx rowIdx) [0..<7])
       [0..<nat (Heatmap_totalCols host clock year weekStartDay)]"

text \<open>The alignment the default renderer of a weekday label derives from \<^verbatim>\<open>layout\<close>, before
  the style of the caller is laid over it.\<close>

definition DefaultWeekdayLabel_justifyContent :: "string \<Rightarrow> string" where
  "DefaultWeekdayLabel_justifyContent layout =
     (if layout = ''center'' then ''center''
      else if layout = ''right'' then ''flex-end''
      else ''flex-start'')"

text \<open>
  The properties of the component that have a default value. A property that the caller
  omits is \<open>None\<close>; the parameter list of \<^verbatim>\<open>Heatmap\<close> replaces it by the default.
\<close>

record HeatmapProps =
  year :: "int option"
  weekStartDay :: "WeekStartDay option"
  cellSize :: "int option"
  gap :: "int option"
  containerGap :: "int option"
  weekDayLabelLayout :: "string option"
  className :: "string option"
  monthLabelMarginBottom :: "int option"

definition Heatmap_year :: "HeatmapProps \<Rightarrow> int" where
  "Heatmap_year props = (case year props of None \<Rightarrow> 2025 | Some v \<Rightarrow> v)"

definition Heatmap_weekStartDay :: "HeatmapProps \<Rightarrow> WeekStartDay" where
  "Heatmap_weekStartDay props = (case weekStartDay props of None \<Rightarrow> ''sunday'' | Some v \<Rightarrow> v)"

definition Heatmap_cellSize :: "HeatmapProps \<Rightarrow> int" where
  "Heatmap_cellSize props = (case cellSize props of None \<Rightarrow> 16 | Some v \<Rightarrow> v)"

definition Heatmap_gap :: "HeatmapProps \<Rightarrow> int" where
  "Heatmap_gap props = (case gap props of None \<Rightarrow> 4 | Some v \<Rightarrow> v)"

definition Heatmap_containerGap :: "HeatmapProps \<Rightarrow> int" where
  "Heatmap_containerGap props = (case containerGap props of None \<Rightarrow> 18 | Some v \<Rightarrow> v)"

definition Heatmap_weekDayLabelLayout :: "HeatmapProps \<Rightarrow> string" where
  "Heatmap_weekDayLabelLayout props =
     (case weekDayLabelLayout props of None \<Rightarrow> ''left'' | Some v \<Rightarrow> v)"

definition Heatmap_className :: "HeatmapProps \<Rightarrow> string" where
  "Heatmap_className props = (case className props of None \<Rightarrow> '''' | Some v \<Rightarrow> v)"

definition Heatmap_monthLabelMarginBottom :: "HeatmapProps \<Rightarrow> int" where
  "Heatmap_monthLabelMarginBottom props =
     (case monthLabelMarginBottom props of None \<Rightarrow> 4 | Some v \<Rightarrow> v)"

text \<open>The properties of a caller that omits every option.\<close>

definition props_omitted :: HeatmapProps where
  "props_omitted =
     \<lparr>year = None, weekStartDay = None, cellSize = None, gap = None, containerGap = None,
      weekDayLabelLayout = None, className = None, monthLabelMarginBottom = None\<rparr>"

section \<open>Facts about the calendar\<close>

subsection \<open>Years, months and days\<close>

lemma div_step:
  fixes a k :: int
  assumes k: "0 < k"
  shows "(a + 1) div k = a div k + (if (a + 1) mod k = 0 then 1 else 0)"
proof -
  define q where "q = (a + 1) div k"
  define r where "r = (a + 1) mod k"
  have eq: "a + 1 = k * q + r" by (simp add: q_def r_def)
  have r: "0 \<le> r" "r < k" using k by (simp_all add: r_def)
  show ?thesis
  proof (cases "r = 0")
    case True
    have "a = k * (q - 1) + (k - 1)" using eq True by (simp add: algebra_simps)
    then have "a div k = q - 1"
      by (rule int_div_pos_eq[where r = "k - 1"]) (use k in simp_all)
    then show ?thesis using True by (simp add: q_def r_def)
  next
    case False
    have "a = k * q + (r - 1)" using eq by simp
    then have "a div k = q"
      by (rule int_div_pos_eq[where r = "r - 1"]) (use k r False in simp_all)
    then show ?thesis using False by (simp add: q_def r_def)
  qed
qed

lemma mod_sub_mult: "(y - k * n) mod k = y mod (k::int)"
proof -
  have "(y + k * (- n)) mod k = y mod k" by (rule mod_mult_self2)
  then show ?thesis by simp
qed

lemma mod_shift:
  "(y - 1968) mod 4 = 0 \<longleftrightarrow> (y::int) mod 4 = 0"
  "(y - 1900) mod 100 = 0 \<longleftrightarrow> (y::int) mod 100 = 0"
  "(y - 1600) mod 400 = 0 \<longleftrightarrow> (y::int) mod 400 = 0"
  using mod_sub_mult[of y 4 492] mod_sub_mult[of y 100 19] mod_sub_mult[of y 400 4] by simp_all

lemma mod_chain:
  "(y::int) mod 400 = 0 \<Longrightarrow> y mod 100 = 0"
  "(y::int) mod 100 = 0 \<Longrightarrow> y mod 4 = 0"
  using mod_mod_cancel[of 100 400 y] mod_mod_cancel[of 4 100 y] by simp_all

lemma DayFromYear_step: "DayFromYear (y + 1) = DayFromYear y + DaysInYear y"
proof -
  have a: "(y + 1 - 1969) div 4 = (y - 1969) div 4 + (if y mod 4 = 0 then 1 else 0)"
    using div_step[of 4 "y - 1969"] mod_shift(1)[of y] by (simp add: algebra_simps)
  have b: "(y + 1 - 1901) div 100 = (y - 1901) div 100 + (if y mod 100 = 0 then 1 else 0)"
    using div_step[of 100 "y - 1901"] mod_shift(2)[of y] by (simp add: algebra_simps)
  have c: "(y + 1 - 1601) div 400 = (y - 1601) div 400 + (if y mod 400 = 0 then 1 else 0)"
    using div_step[of 400 "y - 1601"] mod_shift(3)[of y] by (simp add: algebra_simps)
  show ?thesis
    unfolding DayFromYear_def DaysInYear_def a b c
    using mod_chain[of y] by auto
qed

lemma DaysInYear_pos: "365 \<le> DaysInYear y" "DaysInYear y \<le> 366"
  by (simp_all add: DaysInYear_def)

lemma DayFromYear_mono: "y \<le> y' \<Longrightarrow> DayFromYear y \<le> DayFromYear y'"
proof (induction y' rule: int_ge_induct)
  case base
  show ?case by simp
next
  case (step i)
  then show ?case using DayFromYear_step[of i] DaysInYear_pos(1)[of i] by simp
qed

lemma DayFromYear_bounds:
  "146097 * (y - 1970) - 506 \<le> 400 * DayFromYear y"
  "400 * DayFromYear y \<le> 146097 * (y - 1970) + 589"
proof -
  define a where "a = (y - 1969) div 4"
  define b where "b = (y - 1901) div 100"
  define c where "c = (y - 1601) div 400"
  have a: "4 * a \<le> y - 1969" "y - 1969 - 3 \<le> 4 * a"
    unfolding a_def by (simp_all add: algebra_simps)
  have b: "100 * b \<le> y - 1901" "y - 1901 - 99 \<le> 100 * b"
    unfolding b_def by (simp_all add: algebra_simps)
  have c: "400 * c \<le> y - 1601" "y - 1601 - 399 \<le> 400 * c"
    unfolding c_def by (simp_all add: algebra_simps)
  have d: "DayFromYear y = 365 * (y - 1970) + a - b + c"
    by (simp add: DayFromYear_def a_def b_def c_def)
  have lo: "100 * (y - 1972) \<le> 400 * a" "4 * (y - 2000) \<le> 400 * b"
    using a(2) b(2) by simp_all
  have hi: "400 * a \<le> 100 * (y - 1969)" "400 * b \<le> 4 * (y - 1901)"
    using a(1) b(1) by simp_all
  show "146097 * (y - 1970) - 506 \<le> 400 * DayFromYear y"
    unfolding d using lo(1) hi(2) c(2) by simp
  show "400 * DayFromYear y \<le> 146097 * (y - 1970) + 589"
    unfolding d using hi(1) lo(2) c(1) by simp
qed

lemma YearFromTime_bounds:
  "DayFromYear (YearFromTime d) \<le> d" "d < DayFromYear (YearFromTime d + 1)"
proof -
  define y0 where "y0 = 1970 + (400 * d) div 146097"
  have q: "146097 * (y0 - 1970) \<le> 400 * d" "400 * d < 146097 * (y0 - 1970) + 146097"
    unfolding y0_def by (simp_all add: algebra_simps)
  have "400 * DayFromYear (y0 - 1) \<le> 400 * d"
    using DayFromYear_bounds(2)[of "y0 - 1"] q(1) by simp
  then have lo: "DayFromYear (y0 - 1) \<le> d" by simp
  have "400 * d < 400 * DayFromYear (y0 + 2)"
    using DayFromYear_bounds(1)[of "y0 + 2"] q(2) by simp
  then have hi: "d < DayFromYear (y0 + 2)" by simp
  have Y: "YearFromTime d = (if d < DayFromYear y0 then y0 - 1
         else if DayFromYear (y0 + 1) \<le> d then y0 + 1 else y0)"
    by (simp add: YearFromTime_def y0_def Let_def)
  show "DayFromYear (YearFromTime d) \<le> d" using lo by (simp add: Y)
  show "d < DayFromYear (YearFromTime d + 1)" using hi by (simp add: Y add.commute)
qed

lemma YearFromTime_unique:
  assumes "DayFromYear y \<le> d" "d < DayFromYear (y + 1)"
  shows "YearFromTime d = y"
proof (rule ccontr)
  assume ne: "YearFromTime d \<noteq> y"
  show False
  proof (cases "YearFromTime d < y")
    case True
    then have "DayFromYear (YearFromTime d + 1) \<le> DayFromYear y"
      by (intro DayFromYear_mono) simp
    then show False using assms(1) YearFromTime_bounds(2)[of d] by simp
  next
    case False
    then have "DayFromYear (y + 1) \<le> DayFromYear (YearFromTime d)"
      using ne by (intro DayFromYear_mono) simp
    then show False using assms(2) YearFromTime_bounds(1)[of d] by simp
  qed
qed

lemma month_cases:
  fixes m :: int
  assumes "0 \<le> m" "m \<le> 11"
  shows "m = 0 \<or> m = 1 \<or> m = 2 \<or> m = 3 \<or> m = 4 \<or> m = 5 \<or> m = 6
       \<or> m = 7 \<or> m = 8 \<or> m = 9 \<or> m = 10 \<or> m = 11"
  using assms by arith

lemma leap_flag: "InLeapYear_of_year y = 0 \<or> InLeapYear_of_year y = 1"
  by (simp add: InLeapYear_of_year_def)

lemma DaysInYear_flag: "DaysInYear y = 365 + InLeapYear_of_year y"
  by (simp add: InLeapYear_of_year_def DaysInYear_def)

lemma MonthFromDay_range: "0 \<le> MonthFromDay dwy L" "MonthFromDay dwy L \<le> 11"
  by (simp_all add: MonthFromDay_def)

lemma MonthFromDay_start:
  assumes "0 \<le> m" "m \<le> 11" "1 \<le> dt" "dt \<le> monthLength y m"
  shows "MonthFromDay (monthStart m (InLeapYear_of_year y) + dt - 1) (InLeapYear_of_year y) = m"
  using month_cases[OF assms(1,2)] assms(3,4) leap_flag[of y]
  by (elim disjE) (simp_all add: MonthFromDay_def monthStart_def monthLength_def)

lemma DateFromDay_start:
  assumes "0 \<le> m" "m \<le> 11" "1 \<le> dt" "dt \<le> monthLength y m"
  shows "DateFromDay (monthStart m (InLeapYear_of_year y) + dt - 1) (InLeapYear_of_year y) = dt"
  unfolding DateFromDay_def MonthFromDay_start[OF assms] Let_def
  using month_cases[OF assms(1,2)]
  by (elim disjE) (simp_all add: monthStart_def)

lemma monthStart_bounds:
  assumes "0 \<le> m" "m \<le> 11" "1 \<le> dt" "dt \<le> monthLength y m"
  shows "0 \<le> monthStart m (InLeapYear_of_year y) + dt - 1"
    and "monthStart m (InLeapYear_of_year y) + dt - 1 < DaysInYear y"
  using month_cases[OF assms(1,2)] assms(3,4) leap_flag[of y]
  by (elim disjE; simp add: monthStart_def monthLength_def DaysInYear_flag)+

lemma MakeDay_in_year:
  assumes "0 \<le> m" "m \<le> 11"
  shows "MakeDay y m dt = DayFromYear y + monthStart m (InLeapYear_of_year y) + dt - 1"
  using assms by (simp add: MakeDay_def Let_def)

lemma YearFromTime_in_year:
  assumes "0 \<le> k" "k < DaysInYear y"
  shows "YearFromTime (DayFromYear y + k) = y"
  using assms by (intro YearFromTime_unique) (simp_all add: DayFromYear_step)

lemma DayWithinYear_in_year:
  assumes "0 \<le> k" "k < DaysInYear y"
  shows "DayWithinYear (DayFromYear y + k) = k"
  by (simp add: DayWithinYear_def YearFromTime_in_year[OF assms])

lemma fields_MakeDay:
  assumes "0 \<le> m" "m \<le> 11" "1 \<le> dt" "dt \<le> monthLength y m"
  shows "YearFromTime (MakeDay y m dt) = y"
    and "MonthFromTime (MakeDay y m dt) = m"
    and "DateFromTime (MakeDay y m dt) = dt"
proof -
  define k where "k = monthStart m (InLeapYear_of_year y) + dt - 1"
  have k: "0 \<le> k" "k < DaysInYear y"
    unfolding k_def using monthStart_bounds[OF assms] by simp_all
  have md: "MakeDay y m dt = DayFromYear y + k"
    by (simp add: MakeDay_in_year[OF assms(1,2)] k_def)
  show Y: "YearFromTime (MakeDay y m dt) = y"
    unfolding md by (rule YearFromTime_in_year[OF k])
  have W: "DayWithinYear (MakeDay y m dt) = k"
    unfolding md by (rule DayWithinYear_in_year[OF k])
  show "MonthFromTime (MakeDay y m dt) = m"
    unfolding MonthFromTime_def InLeapYear_def Y W k_def by (rule MonthFromDay_start[OF assms])
  show "DateFromTime (MakeDay y m dt) = dt"
    unfolding DateFromTime_def InLeapYear_def Y W k_def by (rule DateFromDay_start[OF assms])
qed

lemma DayWithinYear_range: "0 \<le> DayWithinYear d" "DayWithinYear d < DaysInYear (YearFromTime d)"
  using YearFromTime_bounds[of d] by (simp_all add: DayWithinYear_def DayFromYear_step)

lemma MonthFromTime_range: "0 \<le> MonthFromTime d" "MonthFromTime d \<le> 11"
  by (simp_all add: MonthFromTime_def MonthFromDay_range)

lemma DateFromDay_range:
  assumes "0 \<le> dwy" "dwy < DaysInYear y"
  shows "1 \<le> DateFromDay dwy (InLeapYear_of_year y)"
    and "DateFromDay dwy (InLeapYear_of_year y) \<le> monthLength y (MonthFromDay dwy (InLeapYear_of_year y))"
  using assms leap_flag[of y]
  by (auto simp add: DateFromDay_def MonthFromDay_def monthLength_def DaysInYear_flag)

lemma DateFromTime_range:
  "1 \<le> DateFromTime d" "DateFromTime d \<le> monthLength (YearFromTime d) (MonthFromTime d)"
  unfolding DateFromTime_def MonthFromTime_def InLeapYear_def
  using DateFromDay_range[OF DayWithinYear_range[of d]] by simp_all

lemma monthLength_ge: "28 \<le> monthLength y m" "monthLength y m \<le> 31"
  using leap_flag[of y] by (auto simp add: monthLength_def)

lemma MakeDay_endOf_month:
  assumes "0 \<le> m" "m \<le> 11"
  shows "MakeDay y (m + 1) 0 = MakeDay y m (monthLength y m)"
proof (cases "m = 11")
  case True
  have "MakeDay y 12 0 = DayFromYear (y + 1) - 1"
    by (simp add: MakeDay_def monthStart_def)
  also have "\<dots> = MakeDay y 11 (monthLength y 11)"
    by (simp add: MakeDay_def monthStart_def monthLength_def DayFromYear_step DaysInYear_flag)
  finally show ?thesis using True by simp
next
  case False
  then have m: "0 \<le> m + 1" "m + 1 \<le> 11" using assms by simp_all
  have "m = 0 \<or> m = 1 \<or> m = 2 \<or> m = 3 \<or> m = 4 \<or> m = 5 \<or> m = 6
       \<or> m = 7 \<or> m = 8 \<or> m = 9 \<or> m = 10"
    using month_cases[OF assms] False by simp
  then show ?thesis
    unfolding MakeDay_in_year[OF m] MakeDay_in_year[OF assms]
    by (elim disjE) (simp_all add: monthStart_def monthLength_def)
qed


subsection \<open>Time values and hosts with one offset\<close>

lemma msPerDay_pos: "0 < msPerDay"
  by (simp add: msPerDay_def)

lemma TimeWithinDay_range: "0 \<le> TimeWithinDay t" "TimeWithinDay t < msPerDay"
  using msPerDay_pos by (simp_all add: TimeWithinDay_def)

lemma Day_MakeDate:
  assumes "0 \<le> tod" "tod < msPerDay"
  shows "Day (MakeDate d tod) = d" and "TimeWithinDay (MakeDate d tod) = tod"
proof -
  have eq: "MakeDate d tod = msPerDay * d + tod" by (simp add: MakeDate_def)
  show "Day (MakeDate d tod) = d"
    unfolding Day_def by (rule int_div_pos_eq[OF eq assms])
  show "TimeWithinDay (MakeDate d tod) = tod"
    unfolding TimeWithinDay_def by (rule int_mod_pos_eq[OF eq assms])
qed


lemma LocalTime_fixed: "fixed_offset host c \<Longrightarrow> LocalTime host t = t + c"
  by (simp add: fixed_offset_def LocalTime_def)

lemma UTC_fixed: "fixed_offset host c \<Longrightarrow> UTC host t = t - c"
  by (simp add: fixed_offset_def UTC_def)

lemma localDay_UTC_MakeDate:
  assumes "fixed_offset host c" "0 \<le> tod" "tod < msPerDay"
  shows "localDay host (UTC host (MakeDate d tod)) = d"
    and "TimeWithinDay (LocalTime host (UTC host (MakeDate d tod))) = tod"
  by (simp_all add: localDay_def LocalTime_fixed[OF assms(1)] UTC_fixed[OF assms(1)]
      Day_MakeDate[OF assms(2,3)])

lemma localDay_Date_new:
  assumes "fixed_offset host c"
  shows "localDay host (Date_new host y m dt) = MakeDay (MakeFullYear y) m dt"
  unfolding Date_new_def
  by (rule localDay_UTC_MakeDate(1)[OF assms]) (simp_all add: msPerDay_def)

lemma Date_new_fixed:
  assumes "fixed_offset host c"
  shows "Date_new host y m dt = MakeDay (MakeFullYear y) m dt * msPerDay - c"
  by (simp add: Date_new_def UTC_fixed[OF assms] MakeDate_def)

lemma localDay_setDate:
  assumes "fixed_offset host c"
  shows "localDay host (Date_setDate host t dt) =
           MakeDay (Date_getFullYear host t) (Date_getMonth host t) dt"
  unfolding Date_setDate_def Let_def Date_getFullYear_def Date_getMonth_def localDay_def[of host t]
  by (rule localDay_UTC_MakeDate(1)[OF assms TimeWithinDay_range])


lemma localDay_setFullYear:
  assumes "fixed_offset host c"
  shows "localDay host (Date_setFullYear host t y) =
           MakeDay y (Date_getMonth host t) (Date_getDate host t)"
  unfolding Date_setFullYear_def Let_def Date_getMonth_def Date_getDate_def localDay_def[of host t]
  by (rule localDay_UTC_MakeDate(1)[OF assms TimeWithinDay_range])

lemma localDay_endOfDay:
  assumes "fixed_offset host c"
  shows "localDay host (Date_setHours_endOfDay host t) = localDay host t"
  unfolding Date_setHours_endOfDay_def Let_def localDay_def[of host t]
  by (rule localDay_UTC_MakeDate(1)[OF assms]) (simp_all add: msPerDay_def)



subsection \<open>The methods of \<^verbatim>\<open>dayjs\<close> and the helper functions\<close>

lemma InLeapYear_of_year_rule:
  "InLeapYear_of_year y = (if 4 dvd y \<and> (\<not> 100 dvd y \<or> 400 dvd y) then 1 else 0)"
proof -
  have "DaysInYear y = 365 \<longleftrightarrow> \<not> (y mod 4 = 0 \<and> (y mod 100 \<noteq> 0 \<or> y mod 400 = 0))"
    using mod_chain[of y] unfolding DaysInYear_def by (cases "y mod 4 = 0"; cases "y mod 100 = 0"; cases "y mod 400 = 0") simp_all
  then show ?thesis
    by (simp only: InLeapYear_of_year_def dvd_eq_mod_eq_0 if_not_P if_P split: if_splits) simp
qed

lemma MakeFullYear_outside: "y < 0 \<or> 99 < y \<Longrightarrow> MakeFullYear y = y"
  by (auto simp add: MakeFullYear_def)

lemma MakeFullYear_inside: "0 \<le> y \<Longrightarrow> y \<le> 99 \<Longrightarrow> MakeFullYear y = 1900 + y"
  by (simp add: MakeFullYear_def)

lemma leap_two_digit_year:
  assumes "1 \<le> y" "y \<le> 99"
  shows "InLeapYear_of_year (1900 + y) = InLeapYear_of_year y"
proof -
  have a: "\<not> 100 dvd y" using assms by (intro zdvd_not_zless) simp_all
  have "(100::int) dvd 1900" by simp
  then have b: "100 dvd 1900 + y \<longleftrightarrow> 100 dvd y" by (rule dvd_add_right_iff)
  have "(4::int) dvd 1900" by simp
  then have c: "4 dvd 1900 + y \<longleftrightarrow> 4 dvd y" by (rule dvd_add_right_iff)
  show ?thesis unfolding InLeapYear_of_year_rule b c using a by simp
qed

lemma leap_year_1900: "InLeapYear_of_year 1900 = 0"
  by (simp add: InLeapYear_of_year_def DaysInYear_def)

lemma leap_MakeFullYear_le: "InLeapYear_of_year (MakeFullYear y) \<le> InLeapYear_of_year y"
proof (cases "0 \<le> y \<and> y \<le> 99")
  case False
  then show ?thesis by (auto simp add: MakeFullYear_def)
next
  case True
  show ?thesis
  proof (cases "y = 0")
    case True
    then show ?thesis using leap_flag[of 0] by (auto simp add: MakeFullYear_def leap_year_1900)
  next
    case False
    then have "1 \<le> y" "y \<le> 99" using True by simp_all
    from leap_two_digit_year[OF this] show ?thesis using True by (simp add: MakeFullYear_def)
  qed
qed

lemma monthLength_MakeFullYear_le: "monthLength (MakeFullYear y) m \<le> monthLength y m"
  using leap_MakeFullYear_le[of y] by (simp add: monthLength_def)

lemma dayjs_daysInMonth_fixed:
  assumes fo: "fixed_offset host c"
  shows "dayjs_daysInMonth host t =
           monthLength (MakeFullYear (Date_getFullYear host t)) (Date_getMonth host t)"
proof -
  define y where "y = MakeFullYear (Date_getFullYear host t)"
  define m where "m = Date_getMonth host t"
  have r: "0 \<le> m" "m \<le> 11" unfolding m_def Date_getMonth_def by (rule MonthFromTime_range)+
  have len: "1 \<le> monthLength y m" "monthLength y m \<le> monthLength y m"
    using monthLength_ge(1)[of y m] by simp_all
  have "localDay host (dayjs_endOf_month host t) = MakeDay y (m + 1) 0"
    by (simp add: dayjs_endOf_month_def localDay_endOfDay[OF fo] localDay_Date_new[OF fo]
        y_def m_def)
  then have "dayjs_daysInMonth host t = DateFromTime (MakeDay y m (monthLength y m))"
    by (simp add: dayjs_daysInMonth_def Date_getDate_def MakeDay_endOf_month[OF r])
  also have "\<dots> = monthLength y m" by (rule fields_MakeDay(3)[OF r len])
  finally show ?thesis by (simp add: y_def m_def)
qed

lemma Date_getDate_range: "1 \<le> Date_getDate host t"
  by (simp add: Date_getDate_def DateFromTime_range(1))

lemma first_of_month_fields:
  assumes "0 \<le> m" "m \<le> 11" "localDay host t = MakeDay y m 1"
  shows "Date_getFullYear host t = y" "Date_getMonth host t = m" "Date_getDate host t = 1"
proof -
  have one: "(1::int) \<le> 1" "1 \<le> monthLength y m"
    using monthLength_ge(1)[of y m] by simp_all
  show "Date_getFullYear host t = y" "Date_getMonth host t = m" "Date_getDate host t = 1"
    unfolding Date_getFullYear_def Date_getMonth_def Date_getDate_def assms(3)
    by (rule fields_MakeDay[OF assms(1,2) one])+
qed

lemma Date_setDate_first_fields:
  assumes fo: "fixed_offset host c"
  shows "Date_getFullYear host (Date_setDate host t 1) = Date_getFullYear host t"
    and "Date_getMonth host (Date_setDate host t 1) = Date_getMonth host t"
    and "Date_getDate host (Date_setDate host t 1) = 1"
proof -
  have r: "0 \<le> Date_getMonth host t" "Date_getMonth host t \<le> 11"
    unfolding Date_getMonth_def by (rule MonthFromTime_range)+
  show "Date_getFullYear host (Date_setDate host t 1) = Date_getFullYear host t"
    and "Date_getMonth host (Date_setDate host t 1) = Date_getMonth host t"
    and "Date_getDate host (Date_setDate host t 1) = 1"
    by (rule first_of_month_fields[OF r localDay_setDate[OF fo]])+
qed

lemma dayjs_set_year_fields:
  assumes fo: "fixed_offset host c"
  shows "Date_getFullYear host (dayjs_set_year host t y) = y"
    and "Date_getMonth host (dayjs_set_year host t y) = Date_getMonth host t"
proof -
  define m where "m = Date_getMonth host t"
  define date where "date = Date_setFullYear host (Date_setDate host t 1) y"
  have m: "0 \<le> m" "m \<le> 11" unfolding m_def Date_getMonth_def by (rule MonthFromTime_range)+
  have "localDay host date = MakeDay y m 1"
    by (simp add: date_def localDay_setFullYear[OF fo] Date_setDate_first_fields[OF fo] m_def)
  note f = first_of_month_fields[OF m this]
  define dt where "dt = min (Date_getDate host t) (dayjs_daysInMonth host date)"
  have "dt \<le> monthLength (MakeFullYear y) m"
    unfolding dt_def dayjs_daysInMonth_fixed[OF fo] f by simp
  then have dt: "1 \<le> dt" "dt \<le> monthLength y m"
    using monthLength_MakeFullYear_le[of y m] Date_getDate_range[of host t]
      monthLength_ge(1)[of "MakeFullYear y" m]
    by (simp_all add: dt_def dayjs_daysInMonth_fixed[OF fo] f)
  have r: "localDay host (dayjs_set_year host t y) = MakeDay y m dt"
    unfolding dayjs_set_year_def Let_def date_def[symmetric] dt_def[symmetric]
    by (simp add: localDay_setDate[OF fo] f)
  show "Date_getFullYear host (dayjs_set_year host t y) = y"
    unfolding Date_getFullYear_def r by (rule fields_MakeDay[OF m dt])
  show "Date_getMonth host (dayjs_set_year host t y) = Date_getMonth host t"
    unfolding Date_getMonth_def[of host "dayjs_set_year host t y"] r m_def[symmetric]
    by (rule fields_MakeDay[OF m dt])
qed


lemma dayjs_startOf_year_fixed:
  assumes "fixed_offset host c"
  shows "dayjs_startOf_year host t =
           DayFromYear (MakeFullYear (Date_getFullYear host t)) * msPerDay - c"
  by (simp add: dayjs_startOf_year_def Date_new_fixed[OF assms] MakeDay_def monthStart_def)

lemma dayjs_utcOffset_fixed:
  assumes "fixed_offset host c"
  shows "dayjs_utcOffset host a = dayjs_utcOffset host b"
  by (simp add: dayjs_utcOffset_def Date_getTimezoneOffset_def LocalTime_fixed[OF assms])

lemma dayjs_diff_day_fixed:
  assumes fo: "fixed_offset host c" and ab: "a - b = n * msPerDay"
  shows "dayjs_diff_day host a b = n"
proof -
  have "real_of_int (n * msPerDay) / real_of_int msPerDay = real_of_int n"
    using msPerDay_pos by simp
  then show ?thesis
    by (simp add: dayjs_diff_day_def Let_def dayjs_utcOffset_fixed[OF fo, of b a] ab)
qed

lemma getDaysInYear_fixed:
  assumes fo: "fixed_offset host c"
  shows "getDaysInYear host now now' y =
           DayFromYear (MakeFullYear (y + 1)) - DayFromYear (MakeFullYear y)"
  unfolding getDaysInYear_def Let_def dayjs_startOf_year_fixed[OF fo] dayjs_set_year_fields[OF fo]
  by (rule dayjs_diff_day_fixed[OF fo]) (simp add: algebra_simps)



lemma localDay_parse_four_digits:
  assumes "fixed_offset host c" "1000 \<le> y" "y \<le> 9999"
  shows "localDay host (dayjs_parse_january_first host y) = DayFromYear y"
  using assms(2,3)
  by (simp add: dayjs_parse_january_first_def localDay_Date_new[OF assms(1)] MakeFullYear_def
      MakeDay_def monthStart_def)


subsection \<open>The grid of day cells\<close>

lemma floor_div7: "\<lfloor>real_of_int a / 7\<rfloor> = a div 7"
  using floor_divide_of_int_eq[of a 7, where ?'a = real] by simp

lemma ceiling_div7: "\<lceil>real_of_int a / 7\<rceil> = (a + 6) div 7"
proof -
  have "\<lceil>real_of_int a / 7\<rceil> = - \<lfloor>real_of_int (- a) / 7\<rfloor>"
    by (simp add: ceiling_def)
  also have "\<dots> = - ((- a) div 7)" by (simp only: floor_div7)
  also have "\<dots> = (a + 6) div 7" by presburger
  finally show ?thesis .
qed

lemma getStartColumnForDay_div:
  "getStartColumnForDay d off = (d - 1 + off) div 7 + 1"
  by (simp add: getStartColumnForDay_def Let_def floor_div7)

lemma WeekDay_range: "0 \<le> WeekDay d" "WeekDay d \<le> 6"
  by (simp_all add: WeekDay_def)


lemma Heatmap_totalCols_eq:
  "Heatmap_totalCols host clock y wsd =
     (Heatmap_daysInYear host clock y + Heatmap_firstDayOffset host y wsd + 6) div 7"
  by (simp only: Heatmap_totalCols_def ceiling_div7)

lemma four_digit_MakeFullYear:
  assumes "1000 \<le> y" "y \<le> 9999"
  shows "MakeFullYear y = y" "MakeFullYear (y + 1) = y + 1"
  using assms by (simp_all add: MakeFullYear_def)

lemma Heatmap_daysInYear_fixed:
  assumes "fixed_offset host c"
  shows "Heatmap_daysInYear host clock y =
           DayFromYear (MakeFullYear (y + 1)) - DayFromYear (MakeFullYear y)"
  by (simp add: Heatmap_daysInYear_def getDaysInYear_fixed[OF assms])

lemma Heatmap_daysInYear_four_digits:
  assumes "fixed_offset host c" "1000 \<le> y" "y \<le> 9999"
  shows "Heatmap_daysInYear host clock y = DaysInYear y"
  by (simp add: Heatmap_daysInYear_fixed[OF assms(1)] four_digit_MakeFullYear[OF assms(2,3)]
      DayFromYear_step)


lemma upt_7: "[0..<7] = [0, 1, 2, 3, 4, 5, 6 :: nat]"
  by code_simp




lemma Heatmap_dayCells_nth:
  assumes "c < nat (Heatmap_totalCols host clock Y wsd)" "r < 7"
  shows "Heatmap_dayCells host clock Y wsd ! c ! r = Heatmap_dayCell host clock Y wsd c r"
  using assms by (simp add: Heatmap_dayCells_def)






lemma host_utc_fixed: "fixed_offset host_utc 0"
  by (simp add: fixed_offset_def host_utc_def)

lemma WeekDay_first_day_four_digits:
  assumes "fixed_offset host c" "1000 \<le> y" "y \<le> 9999"
  shows "Date_getDay host (Heatmap_firstDayOfYear host y) = WeekDay (DayFromYear y)"
  by (simp add: Date_getDay_def Heatmap_firstDayOfYear_def localDay_parse_four_digits[OF assms])


lemma Heatmap_2025_monday:
  assumes fo: "fixed_offset host c"
  shows "Heatmap_daysInYear host clock 2025 = 365"
    and "dayjs_isoWeekday host (Heatmap_firstDayOfYear host 2025) = 3"
    and "Heatmap_firstDayOffset host 2025 ''monday'' = 2"
    and "Heatmap_totalCols host clock 2025 ''monday'' = 53"
proof -
  show d: "Heatmap_daysInYear host clock 2025 = 365"
    by (simp add: Heatmap_daysInYear_four_digits[OF fo] DaysInYear_def)
  show w: "dayjs_isoWeekday host (Heatmap_firstDayOfYear host 2025) = 3"
    by (simp add: dayjs_isoWeekday_def dayjs_day_def WeekDay_first_day_four_digits[OF fo]
        DayFromYear_def WeekDay_def)
  show o: "Heatmap_firstDayOffset host 2025 ''monday'' = 2"
    by (simp add: Heatmap_firstDayOffset_def config_def w)
  show "Heatmap_totalCols host clock 2025 ''monday'' = 53"
    unfolding Heatmap_totalCols_eq o d by simp
qed

subsection \<open>The month labels\<close>













subsection \<open>The years 0 and 99 on the host in UTC\<close>







section \<open>The claims of the specification\<close>

text \<open>
  Claim C1. For every day of the year from 1 on and every first-day offset from 0 to 6,
  \<open>getStartColumnForDay\<close> is the floor of (day - 1 + offset) / 7, plus 1; it never
  decreases when the day grows, and it grows by exactly 1 when the day grows by 7.
\<close>
theorem startColumnForDay_formula_and_monotone:
  assumes "1 \<le> d" "0 \<le> off" "off \<le> 6"
  shows "getStartColumnForDay d off = \<lfloor>real_of_int (d - 1 + off) / 7\<rfloor> + 1
       \<and> (\<forall>d'. d \<le> d' \<longrightarrow> getStartColumnForDay d off \<le> getStartColumnForDay d' off)
       \<and> getStartColumnForDay (d + 7) off = getStartColumnForDay d off + 1"
proof (intro conjI allI impI)
  show "getStartColumnForDay d off = \<lfloor>real_of_int (d - 1 + off) / 7\<rfloor> + 1"
    by (simp add: getStartColumnForDay_def Let_def)
next
  fix d' :: int
  assume "d \<le> d'"
  then have "(d - 1 + off) div 7 \<le> (d' - 1 + off) div 7"
    by (intro zdiv_mono1) simp_all
  then show "getStartColumnForDay d off \<le> getStartColumnForDay d' off"
    by (simp add: getStartColumnForDay_div)
next
  have "(d + 7 - 1 + off) div 7 = (d - 1 + off) div 7 + 1"
    using div_add_self2[of 7 "d - 1 + off"] by (simp add: algebra_simps)
  then show "getStartColumnForDay (d + 7) off = getStartColumnForDay d off + 1"
    by (simp add: getStartColumnForDay_div)
qed

theorem startColumnForDay_formula_and_monotone_witness:
  "getStartColumnForDay 1 0 = 1 \<and> getStartColumnForDay 8 0 = 2
   \<and> getStartColumnForDay 1 0 \<le> getStartColumnForDay 5 0"
proof -
  have h: "(1::int) \<le> 1" "(0::int) \<le> 0" "(0::int) \<le> 6" by simp_all
  show ?thesis
    using startColumnForDay_formula_and_monotone[OF h] by auto
qed







text \<open>
  Claim C4. On every host, for the cell of the grid in column \<open>c\<close> (below the number of
  columns) and row \<open>r\<close> (below 7), with the day of the year computed as
  \<open>c * 7 + r + 1 - firstDayOffset\<close>: the descriptor is a placeholder, with no date and no
  day of the year, exactly when the computed day is at most 0 or greater than the number
  of days of the year; otherwise it is not a placeholder, and its date is
  \<open>getDateFromDayOfYear\<close> of the year and the day.
\<close>
theorem dayCell_placeholder_iff:
  fixes host :: Host and clock :: "nat \<Rightarrow> Dayjs" and Y :: int and wsd :: WeekStartDay
    and c r :: nat
  defines "cell \<equiv> Heatmap_dayCells host clock Y wsd ! c ! r"
    and "doy \<equiv> int c * 7 + int r + 1 - Heatmap_firstDayOffset host Y wsd"
  assumes "c < nat (Heatmap_totalCols host clock Y wsd)" "r < 7"
  shows "((isEmpty cell \<and> date cell = None \<and> dayOfYear cell = None)
            \<longleftrightarrow> (doy \<le> 0 \<or> doy > Heatmap_daysInYear host clock Y))
       \<and> (isEmpty cell \<longleftrightarrow> (doy \<le> 0 \<or> doy > Heatmap_daysInYear host clock Y))
       \<and> (\<not> (doy \<le> 0 \<or> doy > Heatmap_daysInYear host clock Y) \<longrightarrow>
            \<not> isEmpty cell \<and> date cell = Some (getDateFromDayOfYear host Y doy)
            \<and> dayOfYear cell = Some doy)
       \<and> colIndex cell = c \<and> rowIndex cell = r"
  unfolding cell_def doy_def Heatmap_dayCells_nth[OF assms(3,4)]
  by (simp add: Heatmap_dayCell_def Let_def)

theorem dayCell_placeholder_iff_witness:
  "isEmpty (Heatmap_dayCells host_utc clock_epoch 2025 ''monday'' ! 0 ! 1)
   \<and> date (Heatmap_dayCells host_utc clock_epoch 2025 ''monday'' ! 0 ! 2)
       = Some (getDateFromDayOfYear host_utc 2025 1)
   \<and> dayOfYear (Heatmap_dayCells host_utc clock_epoch 2025 ''monday'' ! 52 ! 2) = Some 365
   \<and> isEmpty (Heatmap_dayCells host_utc clock_epoch 2025 ''monday'' ! 52 ! 3)"
proof -
  have tc: "Heatmap_totalCols host_utc clock_epoch 2025 ''monday'' = 53"
    and o: "Heatmap_firstDayOffset host_utc 2025 ''monday'' = 2"
    and n: "Heatmap_daysInYear host_utc clock_epoch 2025 = 365"
    by (rule Heatmap_2025_monday[OF host_utc_fixed])+
  have h: "0 < nat (Heatmap_totalCols host_utc clock_epoch 2025 ''monday'')"
    "52 < nat (Heatmap_totalCols host_utc clock_epoch 2025 ''monday'')"
    "(1::nat) < 7" "(2::nat) < 7" "(3::nat) < 7"
    by (simp_all add: tc)
  show ?thesis
    using dayCell_placeholder_iff[OF h(1) h(3)] dayCell_placeholder_iff[OF h(1) h(4)]
      dayCell_placeholder_iff[OF h(2) h(4)] dayCell_placeholder_iff[OF h(2) h(5)]
    by (simp add: o n)
qed






text \<open>
  Claim C7. For every date, on every host, the weekday offset of the Sunday-start
  convention is the numbering of \<^verbatim>\<open>day()\<close>, 0 for Sunday to 6 for Saturday, of the local
  day of the date, and the offset of the Monday-start convention is the ISO weekday (1 for
  Monday to 7 for Sunday) minus 1: the rotation that sends Monday to 0 and Sunday to 6.
  Under both conventions the offset selects, in the label list of the convention, the
  name of the weekday of the date.
\<close>
theorem getWeekday_both_conventions:
  "getWeekday (config host ''sunday'') d = dayjs_day host d
   \<and> dayjs_day host d = WeekDay (localDay host d)
   \<and> 0 \<le> WeekDay (localDay host d) \<and> WeekDay (localDay host d) \<le> 6
   \<and> getWeekday (config host ''monday'') d = dayjs_isoWeekday host d - 1
   \<and> dayjs_isoWeekday host d
       = (if WeekDay (localDay host d) = 0 then 7 else WeekDay (localDay host d))
   \<and> getWeekday (config host ''monday'') d = (WeekDay (localDay host d) + 6) mod 7
   \<and> labels (config host ''sunday'') ! nat (getWeekday (config host ''sunday'') d)
       = WEEKDAYS_SUN_START ! nat (WeekDay (localDay host d))
   \<and> labels (config host ''monday'') ! nat (getWeekday (config host ''monday'') d)
       = WEEKDAYS_SUN_START ! nat (WeekDay (localDay host d))"
proof -
  define w where "w = WeekDay (localDay host d)"
  have r: "0 \<le> w" "w \<le> 6" unfolding w_def by (rule WeekDay_range)+
  then have c: "w = 0 \<or> w = 1 \<or> w = 2 \<or> w = 3 \<or> w = 4 \<or> w = 5 \<or> w = 6" by arith
  have dd: "dayjs_day host d = w" by (simp add: dayjs_day_def Date_getDay_def w_def)
  have s: "getWeekday (config host ''sunday'') d = w"
    by (simp add: config_def dd)
  have m: "getWeekday (config host ''monday'') d = (if w = 0 then 7 else w) - 1"
    by (simp add: config_def dayjs_isoWeekday_def dd)
  have rot: "(if w = 0 then 7 else w) - 1 = (w + 6) mod 7"
    using c by (elim disjE) simp_all
  have lab: "WEEKDAYS_MON_START ! nat ((w + 6) mod 7) = WEEKDAYS_SUN_START ! nat w"
    using c by (elim disjE) (simp_all add: WEEKDAYS_MON_START_def WEEKDAYS_SUN_START_def)
  have ls: "labels (config host ''sunday'') = WEEKDAYS_SUN_START"
    and lm: "labels (config host ''monday'') = WEEKDAYS_MON_START"
    by (simp_all add: config_def)
  show ?thesis
    unfolding w_def[symmetric]
  proof (intro conjI)
    show "getWeekday (config host ''sunday'') d = dayjs_day host d" by (simp add: s dd)
    show "dayjs_day host d = w" by (rule dd)
    show "0 \<le> w" "w \<le> 6" by (rule r)+
    show "getWeekday (config host ''monday'') d = dayjs_isoWeekday host d - 1"
      by (simp add: m dayjs_isoWeekday_def dd)
    show "dayjs_isoWeekday host d = (if w = 0 then 7 else w)"
      by (simp add: dayjs_isoWeekday_def dd)
    show "getWeekday (config host ''monday'') d = (w + 6) mod 7"
      by (simp only: m rot)
    show "labels (config host ''sunday'') ! nat (getWeekday (config host ''sunday'') d)
        = WEEKDAYS_SUN_START ! nat w"
      by (simp only: ls s)
    show "labels (config host ''monday'') ! nat (getWeekday (config host ''monday'') d)
        = WEEKDAYS_SUN_START ! nat w"
      by (simp only: lm m rot lab)
  qed
qed

theorem getWeekday_both_conventions_witness:
  "getWeekday (config host_utc ''sunday'') 1704067200000 = 1
   \<and> getWeekday (config host_utc ''monday'') 1704067200000 = 0
   \<and> labels (config host_utc ''monday'') ! nat (getWeekday (config host_utc ''monday'') 1704067200000)
       = ''Mon''"
proof -
  have d: "localDay host_utc 1704067200000 = 19723"
    by (simp add: localDay_def LocalTime_def host_utc_def Day_def msPerDay_def)
  show ?thesis
    using getWeekday_both_conventions[of host_utc 1704067200000]
    by (auto simp add: d WeekDay_def WEEKDAYS_SUN_START_def)
qed



text \<open>
  Claim C9 says that the default of \<^verbatim>\<open>weekDayLabelLayout\<close> is the value "start" of an
  enumeration start/center/end. The component has the values "left", "center" and
  "right", its default is "left", and its default renderer does not know "end": it
  aligns every layout other than "center" and "right" at the start.
\<close>
theorem default_weekDayLabelLayout_is_not_start:
  "Heatmap_weekDayLabelLayout props_omitted \<noteq> ''start''
   \<and> DefaultWeekdayLabel_justifyContent ''end'' \<noteq> ''flex-end''"
  by (simp add: Heatmap_weekDayLabelLayout_def props_omitted_def
      DefaultWeekdayLabel_justifyContent_def)

text \<open>
  Claim C9 as amended. When the options are omitted, \<^verbatim>\<open>weekStartDay\<close> is "sunday" (the
  week starts on Sunday), \<^verbatim>\<open>cellSize\<close> is 16, \<^verbatim>\<open>gap\<close> is 4, \<^verbatim>\<open>containerGap\<close> is 18 and
  \<^verbatim>\<open>weekDayLabelLayout\<close> is "left", of the values "left", "center" and "right"; the default
  renderer aligns "left" at the start.
\<close>
theorem Heatmap_defaults:
  fixes props :: HeatmapProps
  assumes "weekStartDay props = None" "cellSize props = None" "gap props = None"
    "containerGap props = None" "weekDayLabelLayout props = None"
  shows "Heatmap_weekStartDay props = ''sunday''
       \<and> getWeekday (config host (Heatmap_weekStartDay props)) = dayjs_day host
       \<and> labels (config host (Heatmap_weekStartDay props)) = WEEKDAYS_SUN_START
       \<and> Heatmap_cellSize props = 16
       \<and> Heatmap_gap props = 4
       \<and> Heatmap_containerGap props = 18
       \<and> Heatmap_weekDayLabelLayout props = ''left''
       \<and> Heatmap_weekDayLabelLayout props \<in> set [''left'', ''center'', ''right'']
       \<and> DefaultWeekdayLabel_justifyContent (Heatmap_weekDayLabelLayout props) = ''flex-start''"
  using assms
  by (simp add: Heatmap_weekStartDay_def Heatmap_cellSize_def Heatmap_gap_def
      Heatmap_containerGap_def Heatmap_weekDayLabelLayout_def config_def
      DefaultWeekdayLabel_justifyContent_def)

theorem Heatmap_defaults_witness:
  "Heatmap_weekStartDay props_omitted = ''sunday''
   \<and> Heatmap_cellSize props_omitted = 16
   \<and> Heatmap_gap props_omitted = 4
   \<and> Heatmap_containerGap props_omitted = 18
   \<and> Heatmap_weekDayLabelLayout props_omitted = ''left''"
proof -
  have h: "weekStartDay props_omitted = None" "cellSize props_omitted = None"
    "gap props_omitted = None" "containerGap props_omitted = None"
    "weekDayLabelLayout props_omitted = None"
    by (simp_all add: props_omitted_def)
  show ?thesis using Heatmap_defaults[OF h] by simp
qed




end
